theory Spec2Isabelle
  imports Complex_Main "HOL-Library.Word" "HOL-Library.Log_Nat"
begin

section \<open>DrainSentinel firmware: sensor state, inference and alert fusion\<close>

text \<open>
  A shallow embedding of \<^verbatim>\<open>src/firmware_esp32s3.cpp\<close>. The global variables of the
  firmware become records that each function takes and returns; the values read from
  the hardware and from the Edge Impulse classifier are arguments.
\<close>

subsection \<open>Floating-point values\<close>

text \<open>
  A C \<^verbatim>\<open>float\<close> or \<^verbatim>\<open>double\<close> is either not-a-number or a finite value, and a
  finite value is modelled by the real number it denotes. Not-a-number propagates through
  every operation and every ordered comparison with it is false, as in IEEE 754. An
  arithmetic operation of the source is the exact operation on the reals
  (\<open>fadd\<close>, \<open>fsub\<close>, \<open>fmul\<close>, \<open>fdiv\<close>) followed by the rounding of its type
  (\<open>as_float\<close>, \<open>as_double\<close>), and so are a literal and a store of a \<^verbatim>\<open>double\<close> into a
  \<^verbatim>\<open>float\<close>. The infinities are left out: no operation below overflows on values of
  type \<^verbatim>\<open>float\<close>. Every division of the source has a non-zero literal divisor. The
  thresholds 0.5 and 0.7 are \<^verbatim>\<open>double\<close> literals compared with \<^verbatim>\<open>float\<close> variables:
  no \<^verbatim>\<open>float\<close> lies between the \<^verbatim>\<open>double\<close> nearest to 0.7 and 0.7 itself, so the
  comparison of the source and the comparison of the reals agree on every finite
  \<^verbatim>\<open>float\<close>.
\<close>

datatype cfloat = NaN | Fin real

fun isnan :: "cfloat \<Rightarrow> bool" where
  "isnan NaN = True"
| "isnan (Fin x) = False"

fun flt_less :: "cfloat \<Rightarrow> cfloat \<Rightarrow> bool" where
  "flt_less (Fin x) (Fin y) = (x < y)"
| "flt_less NaN b = False"
| "flt_less (Fin x) NaN = False"

definition flt_greater :: "cfloat \<Rightarrow> cfloat \<Rightarrow> bool" where
  "flt_greater a b = flt_less b a"

fun fadd :: "cfloat \<Rightarrow> cfloat \<Rightarrow> cfloat" where
  "fadd (Fin x) (Fin y) = Fin (x + y)"
| "fadd NaN b = NaN"
| "fadd (Fin x) NaN = NaN"

fun fsub :: "cfloat \<Rightarrow> cfloat \<Rightarrow> cfloat" where
  "fsub (Fin x) (Fin y) = Fin (x - y)"
| "fsub NaN b = NaN"
| "fsub (Fin x) NaN = NaN"

fun fmul :: "cfloat \<Rightarrow> cfloat \<Rightarrow> cfloat" where
  "fmul (Fin x) (Fin y) = Fin (x * y)"
| "fmul NaN b = NaN"
| "fmul (Fin x) NaN = NaN"

fun fdiv :: "cfloat \<Rightarrow> cfloat \<Rightarrow> cfloat" where
  "fdiv (Fin x) (Fin y) = (if y = 0 then NaN else Fin (x / y))"
| "fdiv NaN b = NaN"
| "fdiv (Fin x) NaN = NaN"

text \<open>
  Rounding to nearest, ties to even, in binary floating point with \<open>p\<close> significant
  bits and least normal exponent \<open>emin\<close>: \<open>ilog2 x\<close> is the exponent of the binade
  of a positive \<open>x\<close>, one unit in the last place is \<open>pow2 e\<close> with \<open>e\<close> that
  exponent (or \<open>emin\<close> below the normal range) less \<open>p - 1\<close>, and the value is
  rounded to a multiple of the unit.
\<close>

definition pow2 :: "int \<Rightarrow> real" where
  "pow2 e = (if 0 \<le> e then 2 ^ nat e else 1 / 2 ^ nat (- e))"

definition ilog2 :: "real \<Rightarrow> int" where
  "ilog2 x = (if 1 \<le> x then bitlen \<lfloor>x\<rfloor> - 1 else - bitlen (\<lceil>1 / x\<rceil> - 1))"

definition round_half_even :: "real \<Rightarrow> int" where
  "round_half_even m =
     (let f = \<lfloor>m\<rfloor>; d = m - of_int f
      in if d < 1 / 2 then f else if 1 / 2 < d then f + 1 else if even f then f else f + 1)"

definition round_to :: "int \<Rightarrow> int \<Rightarrow> real \<Rightarrow> real" where
  "round_to p emin x =
     (if x = 0 then 0
      else let e = max (ilog2 \<bar>x\<bar>) emin - (p - 1)
           in of_int (round_half_even (x / pow2 e)) * pow2 e)"

text \<open>IEEE 754 binary32 (\<^verbatim>\<open>float\<close>) and binary64 (\<^verbatim>\<open>double\<close>).\<close>

definition round_float :: "real \<Rightarrow> real" where
  "round_float x = round_to 24 (- 126) x"

definition round_double :: "real \<Rightarrow> real" where
  "round_double x = round_to 53 (- 1022) x"

fun as_float :: "cfloat \<Rightarrow> cfloat" where
  "as_float NaN = NaN"
| "as_float (Fin x) = Fin (round_float x)"

fun as_double :: "cfloat \<Rightarrow> cfloat" where
  "as_double NaN = NaN"
| "as_double (Fin x) = Fin (round_double x)"

text \<open>The operations of \<^verbatim>\<open>float\<close> and of \<^verbatim>\<open>double\<close> that the source uses.\<close>

definition sub_f :: "cfloat \<Rightarrow> cfloat \<Rightarrow> cfloat" where
  "sub_f a b = as_float (fsub a b)"

definition div_f :: "cfloat \<Rightarrow> cfloat \<Rightarrow> cfloat" where
  "div_f a b = as_float (fdiv a b)"

definition add_d :: "cfloat \<Rightarrow> cfloat \<Rightarrow> cfloat" where
  "add_d a b = as_double (fadd a b)"

definition mul_d :: "cfloat \<Rightarrow> cfloat \<Rightarrow> cfloat" where
  "mul_d a b = as_double (fmul a b)"

definition div_d :: "cfloat \<Rightarrow> cfloat \<Rightarrow> cfloat" where
  "div_d a b = as_double (fdiv a b)"

text \<open>
  The macro of the Arduino core,
  \<^verbatim>\<open>#define constrain(amt,low,high) ((amt)<(low)?(low):((amt)>(high)?(high):(amt)))\<close>.
\<close>

definition constrain :: "cfloat \<Rightarrow> cfloat \<Rightarrow> cfloat \<Rightarrow> cfloat" where
  "constrain amt low high =
     (if flt_less amt low then low else if flt_greater amt high then high else amt)"

subsection \<open>Global state\<close>

text \<open>The anonymous struct \<^verbatim>\<open>current_env_data\<close> (lines 73-79).\<close>

record env_data =
  temperature :: cfloat
  humidity :: cfloat
  pressure :: cfloat
  rainfall :: cfloat
  water_level :: cfloat

text \<open>
  The anonymous struct \<^verbatim>\<open>inference_results\<close> (lines 82-89). The two character arrays
  hold the string literals copied into them by \<^verbatim>\<open>strcpy\<close>, each shorter than its array.
\<close>

record inference_results_t =
  blockage_score :: cfloat
  water_level_class :: int
  flood_risk :: cfloat
  alert_score :: cfloat
  alert_level :: string
  alert_message :: string

text \<open>
  The globals the claims are about: the two structs, the 60-slot window
  \<^verbatim>\<open>water_level_buffer\<close> and its write cursor \<^verbatim>\<open>buffer_index\<close> (lines 69-70).
\<close>

record firmware_state =
  current_env_data :: env_data
  inference_results :: inference_results_t
  water_level_buffer :: "cfloat list"
  buffer_index :: nat

definition init_state :: firmware_state where
  "init_state =
     \<lparr> current_env_data =
         \<lparr> temperature = Fin 0, humidity = Fin 0, pressure = Fin 0,
           rainfall = Fin 0, water_level = Fin 0 \<rparr>,
       inference_results =
         \<lparr> blockage_score = Fin 0, water_level_class = 0, flood_risk = Fin 0,
           alert_score = Fin 0, alert_level = ''LOW'', alert_message = [] \<rparr>,
       water_level_buffer = replicate 60 (Fin 0),
       buffer_index = 0 \<rparr>"

subsection \<open>Fusion and decision logic\<close>

definition ALERT_THRESHOLD_HIGH :: cfloat where
  "ALERT_THRESHOLD_HIGH = Fin 0.7"

definition ALERT_THRESHOLD_MEDIUM :: cfloat where
  "ALERT_THRESHOLD_MEDIUM = Fin 0.5"

text \<open>
  The \<^verbatim>\<open>if\<close> chain of \<^verbatim>\<open>fuse_and_alert\<close> (lines 368-386): the pair of strings copied
  into \<^verbatim>\<open>alert_level\<close> and \<^verbatim>\<open>alert_message\<close>, from the score just stored, the
  water-level class and the flood risk.
\<close>

definition alert_decision :: "cfloat \<Rightarrow> int \<Rightarrow> cfloat \<Rightarrow> string \<times> string" where
  "alert_decision score cls risk =
     (if flt_greater score ALERT_THRESHOLD_HIGH \<and> cls = 2 then
        (''HIGH'', ''CRITICAL: Drainage blockage detected with high water level!'')
      else if flt_greater score ALERT_THRESHOLD_MEDIUM \<or> cls = 1 then
        (''MEDIUM'', ''WARNING: Potential blockage or elevated water level detected.'')
      else if flt_greater risk (Fin 0.7) then
        (''MEDIUM'', ''WARNING: Flood risk predicted based on weather patterns.'')
      else
        (''LOW'', ''OK: Drainage system operating normally.''))"

text \<open>
  The weighted combination (lines 361-365). The literals are \<^verbatim>\<open>double\<close>, so the two
  \<^verbatim>\<open>float\<close> scores are promoted (exactly) and the expression is evaluated in
  \<^verbatim>\<open>double\<close>; \<^verbatim>\<open>water_level_class / 2.0\<close> converts the integer to \<^verbatim>\<open>double\<close>
  (exactly, for a 32-bit \<^verbatim>\<open>int\<close>) before dividing; the assignment to the \<^verbatim>\<open>float\<close>
  field rounds once more.
\<close>

definition fused_score :: "cfloat \<Rightarrow> int \<Rightarrow> cfloat \<Rightarrow> cfloat" where
  "fused_score b cls risk =
     as_float
       (add_d (add_d (mul_d (as_double (Fin 0.40)) b)
                     (mul_d (as_double (Fin 0.30))
                            (div_d (as_double (Fin (of_int cls))) (Fin 2.0))))
              (mul_d (as_double (Fin 0.30)) risk))"

definition fuse_and_alert :: "inference_results_t \<Rightarrow> inference_results_t" where
  "fuse_and_alert r =
     (let r1 = r\<lparr>alert_score :=
                  fused_score (blockage_score r) (water_level_class r) (flood_risk r)\<rparr>;
          d = alert_decision (alert_score r1) (water_level_class r1) (flood_risk r1)
      in r1\<lparr>alert_level := fst d, alert_message := snd d\<rparr>)"

subsection \<open>Sensor functions\<close>

text \<open>
  \<^verbatim>\<open>read_dht22\<close> (lines 125-139); the arguments are what \<^verbatim>\<open>dht.readTemperature()\<close> and
  \<^verbatim>\<open>dht.readHumidity()\<close> returned.
\<close>

definition read_dht22 :: "cfloat \<Rightarrow> cfloat \<Rightarrow> env_data \<Rightarrow> env_data" where
  "read_dht22 temp hum e =
     (if isnan temp \<or> isnan hum then e
      else e\<lparr>temperature := constrain temp (Fin 15) (Fin 40),
             humidity := constrain hum (Fin 0) (Fin 100)\<rparr>)"

text \<open>
  \<^verbatim>\<open>read_bmp280\<close> (lines 144-149); the argument is what \<^verbatim>\<open>bmp280.readPressure()\<close>
  returned, in Pa. The division by 100.0 is in \<^verbatim>\<open>double\<close> and the quotient is stored
  in a \<^verbatim>\<open>float\<close>.
\<close>

definition read_bmp280 :: "cfloat \<Rightarrow> env_data \<Rightarrow> env_data" where
  "read_bmp280 raw e =
     (let p = as_float (div_d raw (Fin 100.0))
      in e\<lparr>pressure := constrain p (Fin 990) (Fin 1040)\<rparr>)"

text \<open>
  \<^verbatim>\<open>update_water_level_buffer\<close> (lines 189-197): the clamped value goes to the
  environmental reading, the value as passed goes to the window.
\<close>

definition update_water_level_buffer :: "cfloat \<Rightarrow> firmware_state \<Rightarrow> firmware_state" where
  "update_water_level_buffer wl st =
     st\<lparr>current_env_data :=
          (current_env_data st)\<lparr>water_level := constrain wl (Fin 0) (Fin 100)\<rparr>,
        water_level_buffer := (water_level_buffer st)[buffer_index st := wl],
        buffer_index := (buffer_index st + 1) mod 60\<rparr>"

subsection \<open>Edge Impulse inference\<close>

text \<open>
  The classifier belongs to the Edge Impulse SDK and is a parameter of the model: a
  function from the signal it is handed to the error code it returns and the
  classification array it fills, one (label, value) entry per label
  (\<^verbatim>\<open>EI_CLASSIFIER_LABEL_COUNT\<close> is the length of the list). A signal is its
  \<^verbatim>\<open>total_length\<close> and its \<^verbatim>\<open>get_data\<close> callback; the callback is modelled by the
  values it writes to \<^verbatim>\<open>out_ptr\<close> for an offset and a length (all three callbacks
  return 0).
\<close>

record signal_t =
  total_length :: nat
  get_data :: "nat \<Rightarrow> nat \<Rightarrow> cfloat list"

type_synonym ei_impulse_result_t = "(string \<times> cfloat) list"

type_synonym EI_IMPULSE_ERROR = int

definition EI_IMPULSE_OK :: EI_IMPULSE_ERROR where
  "EI_IMPULSE_OK = 0"

type_synonym classifier = "signal_t \<Rightarrow> EI_IMPULSE_ERROR \<times> ei_impulse_result_t"

text \<open>
  The loop of lines 251-256 and of lines 339-344: the value of the first entry with the
  given label, or the initial value when no entry has it.
\<close>

fun label_value :: "string \<Rightarrow> cfloat \<Rightarrow> ei_impulse_result_t \<Rightarrow> cfloat" where
  "label_value l d [] = d"
| "label_value l d (c # cs) = (if fst c = l then snd c else label_value l d cs)"

text \<open>The callback of \<^verbatim>\<open>run_visual_inference\<close> (lines 233-238): \<^verbatim>\<open>memset\<close> to zero.\<close>

definition visual_get_data :: "nat \<Rightarrow> nat \<Rightarrow> cfloat list" where
  "visual_get_data offset len = replicate len (Fin 0)"

text \<open>
  \<^verbatim>\<open>run_visual_inference\<close> (lines 227-260). \<^verbatim>\<open>EI_CLASSIFIER_INPUT_SIZE\<close> comes from
  the generated model metadata and is a parameter.
\<close>

definition run_visual_inference :: "classifier \<Rightarrow> nat \<Rightarrow> 8 word list \<Rightarrow> cfloat" where
  "run_visual_inference run_classifier EI_CLASSIFIER_INPUT_SIZE frame_data =
     (let signal = \<lparr> total_length = EI_CLASSIFIER_INPUT_SIZE, get_data = visual_get_data \<rparr>;
          res = run_classifier signal
      in if fst res \<noteq> EI_IMPULSE_OK then Fin 0.0
         else label_value ''blockage'' (Fin 0.0) (snd res))"

text \<open>
  The callback of \<^verbatim>\<open>run_sensor_inference\<close> (lines 271-277): \<^verbatim>\<open>length\<close> values read
  from the window, starting at the write cursor; the offset is not used. Each is divided
  by 100.0 in \<^verbatim>\<open>double\<close> and stored as a \<^verbatim>\<open>float\<close>.
\<close>

definition sensor_get_data :: "firmware_state \<Rightarrow> nat \<Rightarrow> nat \<Rightarrow> cfloat list" where
  "sensor_get_data st offset len =
     map (\<lambda>i. as_float
                 (div_d (water_level_buffer st ! ((buffer_index st + i) mod 60)) (Fin 100.0)))
         [0..<len]"

text \<open>
  The loop of lines 292-303, on the pair (\<^verbatim>\<open>water_level_class\<close>, \<^verbatim>\<open>max_score\<close>).
\<close>

fun water_level_scan :: "ei_impulse_result_t \<Rightarrow> int \<times> cfloat \<Rightarrow> int \<times> cfloat" where
  "water_level_scan [] acc = acc"
| "water_level_scan (c # cs) acc =
     (if flt_greater (snd c) (snd acc) then
        water_level_scan cs
          (if fst c = ''normal'' then 0
           else if fst c = ''elevated'' then 1
           else if fst c = ''critical'' then 2
           else fst acc,
           snd c)
      else water_level_scan cs acc)"

definition run_sensor_inference :: "classifier \<Rightarrow> firmware_state \<Rightarrow> int" where
  "run_sensor_inference run_classifier st =
     (let signal = \<lparr> total_length = 60, get_data = sensor_get_data st \<rparr>;
          res = run_classifier signal
      in if fst res \<noteq> EI_IMPULSE_OK then 0
         else fst (water_level_scan (snd res) (0, Fin 0.0)))"

text \<open>
  The callback of \<^verbatim>\<open>run_environmental_inference\<close> (lines 318-326): five values,
  whatever the offset and the length. The integer literals are converted to
  \<^verbatim>\<open>float\<close> and every operation is a \<^verbatim>\<open>float\<close> operation.
\<close>

definition env_get_data :: "env_data \<Rightarrow> nat \<Rightarrow> nat \<Rightarrow> cfloat list" where
  "env_get_data e offset len =
     [ div_f (sub_f (temperature e) (Fin 15)) (Fin 25),
       div_f (humidity e) (Fin 100),
       sub_f (Fin 1) (div_f (sub_f (pressure e) (Fin 990)) (Fin 50)),
       div_f (rainfall e) (Fin 100),
       div_f (water_level e) (Fin 100) ]"

definition run_environmental_inference :: "classifier \<Rightarrow> firmware_state \<Rightarrow> cfloat" where
  "run_environmental_inference run_classifier st =
     (let signal = \<lparr> total_length = 5, get_data = env_get_data (current_env_data st) \<rparr>;
          res = run_classifier signal
      in if fst res \<noteq> EI_IMPULSE_OK then Fin 0.0
         else label_value ''high_risk'' (Fin 0.0) (snd res))"

text \<open>A value in the closed unit interval; a value within a distance of a real number.\<close>

definition in_unit :: "cfloat \<Rightarrow> bool" where
  "in_unit v = (case v of NaN \<Rightarrow> False | Fin x \<Rightarrow> 0 \<le> x \<and> x \<le> 1)"

definition close_to :: "cfloat \<Rightarrow> real \<Rightarrow> real \<Rightarrow> bool" where
  "close_to v x eps = (case v of NaN \<Rightarrow> False | Fin y \<Rightarrow> \<bar>y - x\<bar> \<le> eps)"

subsection \<open>Alert sink and status queries\<close>

text \<open>The values of \<^verbatim>\<open>WiFi.status()\<close> (\<^verbatim>\<open>wl_status_t\<close> of the WiFi library).\<close>

datatype wl_status_t =
  WL_NO_SHIELD | WL_IDLE_STATUS | WL_NO_SSID_AVAIL | WL_SCAN_COMPLETED | WL_CONNECTED
  | WL_CONNECT_FAILED | WL_CONNECTION_LOST | WL_DISCONNECTED

text \<open>The JSON document that \<^verbatim>\<open>send_alert\<close> builds (lines 404-413).\<close>

record alert_payload =
  p_timestamp :: "32 word"
  p_alert_level :: string
  p_alert_message :: string
  p_blockage_score :: cfloat
  p_water_level_class :: int
  p_flood_risk :: cfloat
  p_temperature :: cfloat
  p_humidity :: cfloat
  p_water_level :: cfloat

text \<open>
  \<^verbatim>\<open>send_alert\<close> (lines 395-421) writes no global. Its result is the payload it hands
  to the transport (the source prints it where the HTTP POST belongs), or nothing when
  WiFi is not connected. The arguments are \<^verbatim>\<open>WiFi.status()\<close> and \<^verbatim>\<open>millis()\<close>.
\<close>

definition send_alert :: "wl_status_t \<Rightarrow> 32 word \<Rightarrow> firmware_state \<Rightarrow> alert_payload option" where
  "send_alert status millis st =
     (if status \<noteq> WL_CONNECTED then None
      else Some
        \<lparr> p_timestamp = millis,
          p_alert_level = alert_level (inference_results st),
          p_alert_message = alert_message (inference_results st),
          p_blockage_score = blockage_score (inference_results st),
          p_water_level_class = water_level_class (inference_results st),
          p_flood_risk = flood_risk (inference_results st),
          p_temperature = temperature (current_env_data st),
          p_humidity = humidity (current_env_data st),
          p_water_level = water_level (current_env_data st) \<rparr>)"

text \<open>The document of \<^verbatim>\<open>handle_alerts\<close> (lines 450-461): level, message, score.\<close>

definition handle_alerts :: "firmware_state \<Rightarrow> string \<times> string \<times> cfloat" where
  "handle_alerts st =
     (alert_level (inference_results st),
      alert_message (inference_results st),
      alert_score (inference_results st))"

text \<open>
  The inference branch of \<^verbatim>\<open>loop\<close> (lines 538-557): the three models in turn, the
  fusion, and \<^verbatim>\<open>send_alert\<close> unless the level is LOW. \<^verbatim>\<open>capture_camera_frame\<close> is a
  placeholder that leaves the frame buffer as it finds it, so the frame is an argument.
\<close>

definition inference_cycle ::
  "classifier \<Rightarrow> nat \<Rightarrow> 8 word list \<Rightarrow> wl_status_t \<Rightarrow> 32 word \<Rightarrow> firmware_state
     \<Rightarrow> firmware_state \<times> alert_payload option" where
  "inference_cycle run_classifier EI_CLASSIFIER_INPUT_SIZE frame_buffer status millis st =
     (let st1 = st\<lparr>inference_results := (inference_results st)
                   \<lparr>blockage_score :=
                      run_visual_inference run_classifier EI_CLASSIFIER_INPUT_SIZE frame_buffer\<rparr>\<rparr>;
          st2 = st1\<lparr>inference_results := (inference_results st1)
                   \<lparr>water_level_class := run_sensor_inference run_classifier st1\<rparr>\<rparr>;
          st3 = st2\<lparr>inference_results := (inference_results st2)
                   \<lparr>flood_risk := run_environmental_inference run_classifier st2\<rparr>\<rparr>;
          st4 = st3\<lparr>inference_results := fuse_and_alert (inference_results st3)\<rparr>
      in (st4,
          if alert_level (inference_results st4) \<noteq> ''LOW'' then send_alert status millis st4
          else None))"

subsection \<open>Rounding\<close>

lemmas round_eval =
  round_double_def round_float_def round_to_def Let_def ilog2_def round_half_even_def pow2_def
  compute_bitlen

lemma pow2_powi: "pow2 e = 2 powi e"
  by (simp add: pow2_def power_int_def field_simps)

lemma pow2_pos: "0 < pow2 e"
  by (simp add: pow2_def)

lemma pow2_mono: "a \<le> b \<Longrightarrow> pow2 a \<le> pow2 b"
  by (simp add: pow2_powi power_int_increasing)

lemma pow2_less_cancel: "pow2 a < pow2 b \<Longrightarrow> a < b"
  using pow2_mono [of b a] by (cases "a < b") auto

lemma pow2_add: "pow2 (a + b) = pow2 a * pow2 b"
  by (simp add: pow2_powi power_int_add)

lemma pow2_nat: "0 \<le> e \<Longrightarrow> pow2 e = 2 ^ nat e"
  by (simp add: pow2_def)

lemma pow2_neg: "e \<le> 0 \<Longrightarrow> pow2 e = 1 / 2 ^ nat (- e)"
  by (cases "e = 0") (simp_all add: pow2_def)

lemma ilog2_bounds:
  assumes "0 < x"
  shows "pow2 (ilog2 x) \<le> x \<and> x < pow2 (ilog2 x + 1)"
proof (cases "1 \<le> x")
  case True
  define n where "n = \<lfloor>x\<rfloor>"
  have n: "0 < n" using True by (simp add: n_def)
  have b: "2 ^ nat (bitlen n - 1) \<le> n" "n < 2 ^ nat (bitlen n)"
    using bitlen_bounds [OF n] by simp_all
  have b1: "1 \<le> bitlen n" using n by (simp add: bitlen_alt_def)
  have i: "ilog2 x = bitlen n - 1" using True by (simp add: ilog2_def n_def)
  have "pow2 (bitlen n - 1) = of_int (2 ^ nat (bitlen n - 1))"
    using b1 by (simp add: pow2_nat)
  also have "\<dots> \<le> of_int n" using b(1) by (simp only: of_int_le_iff)
  also have "\<dots> \<le> x" by (simp add: n_def)
  finally have lo: "pow2 (ilog2 x) \<le> x" by (simp add: i)
  have "n + 1 \<le> 2 ^ nat (bitlen n)" using b(2) by simp
  then have "of_int (n + 1) \<le> (of_int (2 ^ nat (bitlen n)) :: real)"
    by (simp only: of_int_le_iff)
  moreover have "x < of_int (n + 1)" by (simp add: n_def)
  ultimately have "x < 2 ^ nat (bitlen n)" by simp
  then have hi: "x < pow2 (ilog2 x + 1)" using b1 by (simp add: i pow2_nat)
  from lo hi show ?thesis ..
next
  case False
  define m where "m = \<lceil>1 / x\<rceil>"
  define b where "b = bitlen (m - 1)"
  have y: "1 < 1 / x" using False assms by simp
  have m2: "0 < m - 1" using y by (simp add: m_def less_ceiling_iff)
  have bb: "2 ^ nat (b - 1) \<le> m - 1" "m - 1 < 2 ^ nat b"
    using bitlen_bounds [OF m2] by (simp_all add: b_def)
  have b1: "1 \<le> b" using m2 by (simp add: b_def bitlen_alt_def)
  have i: "ilog2 x = - b" using False by (simp add: ilog2_def m_def b_def)
  have "m \<le> 2 ^ nat b" using bb(2) by simp
  then have "of_int m \<le> (of_int (2 ^ nat b) :: real)" by (simp only: of_int_le_iff)
  then have "of_int m \<le> (2 ^ nat b :: real)" by simp
  moreover have "1 / x \<le> of_int m" by (simp add: m_def)
  ultimately have "1 / x \<le> 2 ^ nat b" by linarith
  then have "1 / 2 ^ nat b \<le> x" using assms by (simp add: field_simps)
  then have lo: "pow2 (ilog2 x) \<le> x" using b1 by (simp add: i pow2_neg)
  have "of_int (2 ^ nat (b - 1)) \<le> (of_int (m - 1) :: real)"
    using bb(1) by (simp only: of_int_le_iff)
  moreover have "of_int (m - 1) < 1 / x"
    unfolding m_def by (metis ceiling_correct of_int_diff of_int_1)
  ultimately have "2 ^ nat (b - 1) < 1 / x" by simp
  then have "x < 1 / 2 ^ nat (b - 1)" using assms by (simp add: field_simps)
  moreover have "pow2 (- b + 1) = 1 / 2 ^ nat (b - 1)"
    using b1 pow2_neg [of "- b + 1"] by simp
  ultimately have hi: "x < pow2 (ilog2 x + 1)" by (simp add: i)
  from lo hi show ?thesis ..
qed

lemma ilog2_less: "0 < x \<Longrightarrow> x < pow2 k \<Longrightarrow> ilog2 x < k"
  using ilog2_bounds [of x] pow2_less_cancel [of "ilog2 x" k] by simp

lemma round_half_even_error: "\<bar>of_int (round_half_even m) - m\<bar> \<le> 1 / 2"
  by (simp add: round_half_even_def Let_def)

lemma round_half_even_le: "m \<le> of_int n \<Longrightarrow> round_half_even m \<le> n"
proof -
  assume a: "m \<le> of_int n"
  have f: "\<lfloor>m\<rfloor> \<le> n" using a by (simp add: floor_le_iff)  
  show ?thesis
  proof (cases "m = of_int \<lfloor>m\<rfloor>")
    case True
    then show ?thesis using f by (simp add: round_half_even_def Let_def)
  next
    case False
    then have "of_int \<lfloor>m\<rfloor> < m" by (metis of_int_floor_le order_less_le)
    then have "of_int \<lfloor>m\<rfloor> < (of_int n :: real)" using a by simp
    then have "\<lfloor>m\<rfloor> < n" by (simp only: of_int_less_iff)
    then show ?thesis by (simp add: round_half_even_def Let_def)
  qed
qed

lemma round_half_even_ge: "of_int n \<le> m \<Longrightarrow> n \<le> round_half_even m"
proof -
  assume "of_int n \<le> m"
  then have "n \<le> \<lfloor>m\<rfloor>" by (simp add: le_floor_iff)
  then show ?thesis by (simp add: round_half_even_def Let_def)
qed

lemma round_to_error:
  "\<bar>round_to p emin x - x\<bar> \<le> pow2 (max (ilog2 \<bar>x\<bar>) emin - (p - 1)) / 2"
proof (cases "x = 0")
  case True
  then show ?thesis using pow2_pos [of "max (ilog2 \<bar>x\<bar>) emin - (p - 1)"]
    by (simp add: round_to_def)
next
  case False
  define e where "e = max (ilog2 \<bar>x\<bar>) emin - (p - 1)"
  have p: "0 < pow2 e" by (rule pow2_pos)
  have "round_to p emin x - x = (of_int (round_half_even (x / pow2 e)) - x / pow2 e) * pow2 e"
    using False p by (simp add: round_to_def e_def Let_def field_simps)
  then have "\<bar>round_to p emin x - x\<bar> = \<bar>of_int (round_half_even (x / pow2 e)) - x / pow2 e\<bar> * pow2 e"
    using p by (simp add: abs_mult)
  also have "\<dots> \<le> (1 / 2) * pow2 e"
    using round_half_even_error [of "x / pow2 e"] p by (intro mult_right_mono) simp_all
  finally show ?thesis by (simp add: e_def)
qed

lemma round_to_error_below:
  assumes "\<bar>x\<bar> < pow2 k" "emin < k"
  shows "\<bar>round_to p emin x - x\<bar> \<le> pow2 (k - p) / 2"
proof (cases "x = 0")
  case True
  then show ?thesis using pow2_pos [of "k - p"] by (simp add: round_to_def)
next
  case False
  then have "ilog2 \<bar>x\<bar> < k" using assms ilog2_less [of "\<bar>x\<bar>" k] by simp
  then have "max (ilog2 \<bar>x\<bar>) emin - (p - 1) \<le> k - p" using assms by simp
  then have "pow2 (max (ilog2 \<bar>x\<bar>) emin - (p - 1)) \<le> pow2 (k - p)" by (rule pow2_mono)
  then show ?thesis using round_to_error [of p emin x] by simp
qed

lemma round_to_nonneg: "0 \<le> x \<Longrightarrow> 0 \<le> round_to p emin x"
proof -
  assume a: "0 \<le> x"
  have "0 \<le> round_half_even (x / pow2 (max (ilog2 \<bar>x\<bar>) emin - (p - 1)))"
    using a pow2_pos [of "max (ilog2 \<bar>x\<bar>) emin - (p - 1)"]
    by (intro round_half_even_ge) simp
  then show ?thesis using pow2_pos [of "max (ilog2 \<bar>x\<bar>) emin - (p - 1)"]
    by (simp add: round_to_def Let_def)
qed

lemma round_to_le_int:
  assumes "0 \<le> x" "x \<le> of_int c" "x < pow2 p" "emin < p"
  shows "round_to p emin x \<le> of_int c"
proof (cases "x = 0")
  case True
  then show ?thesis using assms by (simp add: round_to_def)
next
  case False
  define e where "e = max (ilog2 \<bar>x\<bar>) emin - (p - 1)"
  have "ilog2 \<bar>x\<bar> < p" using False assms ilog2_less [of "\<bar>x\<bar>" p] by simp
  then have e0: "e \<le> 0" using assms by (simp add: e_def)
  have pe: "pow2 e = 1 / 2 ^ nat (- e)" using e0 by (rule pow2_neg)
  have "x / pow2 e \<le> of_int c / pow2 e"
    using assms pow2_pos [of e] by (simp add: divide_right_mono)
  also have "of_int c / pow2 e = of_int (c * 2 ^ nat (- e))" by (simp add: pe)
  finally have "round_half_even (x / pow2 e) \<le> c * 2 ^ nat (- e)"
    by (rule round_half_even_le)
  then have "(of_int (round_half_even (x / pow2 e)) :: real) \<le> of_int (c * 2 ^ nat (- e))"
    by (simp only: of_int_le_iff)
  then have "of_int (round_half_even (x / pow2 e)) * pow2 e \<le> of_int (c * 2 ^ nat (- e)) * pow2 e"
    using pow2_pos [of e] by (simp add: mult_right_mono)
  also have "\<dots> = of_int c" by (simp add: pe)
  finally show ?thesis using False by (simp add: round_to_def e_def Let_def)
qed

lemma round_double_error: "\<bar>x\<bar> < 2 \<Longrightarrow> \<bar>round_double x - x\<bar> \<le> 1 / 9007199254740992"
  using round_to_error_below [of x 1 "- 1022" 53] by (simp add: round_double_def pow2_def)

lemma round_float_error: "\<bar>x\<bar> < 2 \<Longrightarrow> \<bar>round_float x - x\<bar> \<le> 1 / 16777216"
  using round_to_error_below [of x 1 "- 126" 24] by (simp add: round_float_def pow2_def)

lemma round_float_error_64: "\<bar>x\<bar> < 64 \<Longrightarrow> \<bar>round_float x - x\<bar> \<le> 1 / 524288"
  using round_to_error_below [of x 6 "- 126" 24] by (simp add: round_float_def pow2_def)

lemma round_float_nonneg: "0 \<le> x \<Longrightarrow> 0 \<le> round_float x"
  by (simp add: round_float_def round_to_nonneg)

lemma round_float_le_int:
  "0 \<le> x \<Longrightarrow> x \<le> of_int c \<Longrightarrow> x < 16777216 \<Longrightarrow> round_float x \<le> of_int c"
  using round_to_le_int [of x c 24 "- 126"] by (simp add: round_float_def pow2_def)

lemma round_float_unit: "0 \<le> x \<Longrightarrow> x \<le> 1 \<Longrightarrow> 0 \<le> round_float x \<and> round_float x \<le> 1"
  using round_float_le_int [of x 1] round_float_nonneg [of x] by simp

subsection \<open>Weighted fusion: evaluation and error\<close>

lemma fused_score_Fin:
  "fused_score (Fin b) cls (Fin f) =
     Fin (round_float
       (round_double
         (round_double
            (round_double (round_double 0.40 * b)
             + round_double (round_double 0.30 * (round_double (round_double (of_int cls) / 2))))
          + round_double (round_double 0.30 * f))))"
  by (simp add: fused_score_def add_d_def mul_d_def div_d_def)

lemma fused_score_NaN:
  "fused_score NaN cls risk = NaN" "fused_score b cls NaN = NaN"
  by (cases b; cases risk; simp add: fused_score_def add_d_def mul_d_def div_d_def)+

lemma round_double_literals:
  "round_double (2 / 5) = 3602879701896397 / 9007199254740992"
  "round_double (3 / 10) = 5404319552844595 / 18014398509481984"
  by (simp_all add: round_eval)

lemma round_double_class:
  assumes "cls \<in> {0, 1, 2}"
  shows "round_double (round_double (of_int cls) / 2) = of_int cls / 2"
proof -
  have c: "round_double 0 = 0" "round_double 1 = 1" "round_double 2 = 2"
    "round_double (1 / 2) = 1 / 2"
    by (simp_all add: round_eval)
  from assms consider "cls = 0" | "cls = 1" | "cls = 2" by auto
  then show ?thesis by cases (simp_all add: c)
qed

lemma fused_score_close:
  assumes "0 \<le> b" "b \<le> 1" "0 \<le> f" "f \<le> 1" "cls \<in> {0, 1, 2}"
  shows "close_to (fused_score (Fin b) cls (Fin f))
           (0.40 * b + 0.30 * (real_of_int cls / 2) + 0.30 * f) (1 / 2 ^ 23)"
proof -
  define h where "h = real_of_int cls / 2"
  define t1 where "t1 = round_double (3602879701896397 / 9007199254740992 * b)"
  define t2 where "t2 = round_double (5404319552844595 / 18014398509481984 * h)"
  define s1 where "s1 = round_double (t1 + t2)"
  define t3 where "t3 = round_double (5404319552844595 / 18014398509481984 * f)"
  define s2 where "s2 = round_double (s1 + t3)"
  define s where "s = round_float s2"
  have hb: "0 \<le> h" "h \<le> 1" using assms(5) by (auto simp add: h_def)
  have fs: "fused_score (Fin b) cls (Fin f) = Fin s"
    unfolding fused_score_Fin round_double_class [OF assms(5)]
    by (simp add: round_double_literals s_def s2_def s1_def t1_def t2_def t3_def h_def)
  have e1: "\<bar>t1 - 3602879701896397 / 9007199254740992 * b\<bar> \<le> 1 / 9007199254740992"
    unfolding t1_def using assms by (intro round_double_error) linarith
  have e2: "\<bar>t2 - 5404319552844595 / 18014398509481984 * h\<bar> \<le> 1 / 9007199254740992"
    unfolding t2_def using hb by (intro round_double_error) linarith
  have e3: "\<bar>t3 - 5404319552844595 / 18014398509481984 * f\<bar> \<le> 1 / 9007199254740992"
    unfolding t3_def using assms by (intro round_double_error) linarith
  have e4: "\<bar>s1 - (t1 + t2)\<bar> \<le> 1 / 9007199254740992"
    unfolding s1_def using e1 e2 assms hb by (intro round_double_error) linarith
  have e5: "\<bar>s2 - (s1 + t3)\<bar> \<le> 1 / 9007199254740992"
    unfolding s2_def using e1 e2 e3 e4 assms hb by (intro round_double_error) linarith
  have e6: "\<bar>s - s2\<bar> \<le> 1 / 16777216"
    unfolding s_def using e1 e2 e3 e4 e5 assms hb by (intro round_float_error) linarith
  have "\<bar>s - (2 / 5 * b + 3 / 10 * h + 3 / 10 * f)\<bar> \<le> 1 / 8388608"
    using e1 e2 e3 e4 e5 e6 assms hb by linarith
  then show ?thesis by (simp add: fs close_to_def h_def)
qed

lemma fused_score_values:
  "fused_score (Fin 1) 2 (Fin 1) = Fin 1"
  "fused_score (Fin (1 / 2)) 1 (Fin (13421773 / 67108864)) = Fin (13757317 / 33554432)"
  "fused_score (Fin 0) 1 (Fin (5 / 8)) = Fin (11324621 / 33554432)"
  "fused_score (Fin (7 / 8)) 0 (Fin (5 / 8)) = Fin (4508877 / 8388608)"
  "fused_score (Fin (7 / 8)) 1 (Fin 0) = Fin (1 / 2)"
  "fused_score (Fin 0) 0 (Fin 0) = Fin 0"
  by (simp_all add: fused_score_Fin round_eval)

text \<open>
  Two inputs whose exact sums lie just above a threshold and whose stored scores do not:
  the first is MEDIUM, not HIGH, and the second is LOW, not MEDIUM.
\<close>

lemma fused_score_near_thresholds:
  "fused_score (Fin 1) 2 (Fin (1 / 1073741824)) = Fin (11744051 / 16777216)"
  "fused_score (Fin (1 / 2)) 2 (Fin (1 / 67108864)) = Fin (1 / 2)"
  by (simp_all add: fused_score_Fin round_eval)

lemma fuse_and_alert_near_thresholds:
  "alert_level (fuse_and_alert
     \<lparr> blockage_score = Fin 1, water_level_class = 2, flood_risk = Fin (1 / 1073741824),
       alert_score = Fin 0, alert_level = ''LOW'', alert_message = [] \<rparr>) = ''MEDIUM''"
  "alert_level (fuse_and_alert
     \<lparr> blockage_score = Fin (1 / 2), water_level_class = 2, flood_risk = Fin (1 / 67108864),
       alert_score = Fin 0, alert_level = ''LOW'', alert_message = [] \<rparr>) = ''LOW''"
  by (simp_all add: fuse_and_alert_def fused_score_near_thresholds alert_decision_def
      ALERT_THRESHOLD_HIGH_def ALERT_THRESHOLD_MEDIUM_def flt_greater_def)

subsection \<open>Alert decision\<close>

lemma fuse_and_alert_fields:
  "blockage_score (fuse_and_alert r) = blockage_score r"
  "water_level_class (fuse_and_alert r) = water_level_class r"
  "flood_risk (fuse_and_alert r) = flood_risk r"
  "alert_score (fuse_and_alert r) =
     fused_score (blockage_score r) (water_level_class r) (flood_risk r)"
  "alert_level (fuse_and_alert r) =
     fst (alert_decision (alert_score (fuse_and_alert r)) (water_level_class r) (flood_risk r))"
  "alert_message (fuse_and_alert r) =
     snd (alert_decision (alert_score (fuse_and_alert r)) (water_level_class r) (flood_risk r))"
  by (simp_all add: fuse_and_alert_def Let_def)

text \<open>
  Claim C1. The level and the message that \<^verbatim>\<open>fuse_and_alert\<close> stores are the value of
  the decision chain at the stored score, the class and the flood risk, whatever the two
  fields held before. Whenever the score is greater than 0.7 and the class is 2, the chain
  gives HIGH with the critical message for every flood risk, not-a-number included: the
  first clause wins and the flood-risk clause has no say.
\<close>

theorem alert_decision_high_first:
  "(flt_greater score (Fin 0.7) \<longrightarrow>
      alert_decision score 2 risk =
        (''HIGH'', ''CRITICAL: Drainage blockage detected with high water level!''))
   \<and> (alert_level (fuse_and_alert r), alert_message (fuse_and_alert r)) =
       alert_decision (alert_score (fuse_and_alert r)) (water_level_class r) (flood_risk r)
   \<and> (flt_greater (alert_score (fuse_and_alert r)) (Fin 0.7) \<and> water_level_class r = 2 \<longrightarrow>
        alert_level (fuse_and_alert r) = ''HIGH'')"
  by (auto simp add: fuse_and_alert_fields alert_decision_def ALERT_THRESHOLD_HIGH_def)

theorem alert_decision_high_first_witness:
  "flt_greater (Fin 0.75) (Fin 0.7)
   \<and> alert_decision (Fin 0.75) 2 (Fin 0.9) =
       (''HIGH'', ''CRITICAL: Drainage blockage detected with high water level!'')
   \<and> alert_decision (Fin 0.75) 2 NaN =
       (''HIGH'', ''CRITICAL: Drainage blockage detected with high water level!'')
   \<and> alert_level (fuse_and_alert
        \<lparr> blockage_score = Fin 1, water_level_class = 2, flood_risk = Fin 1,
          alert_score = Fin 0, alert_level = ''LOW'', alert_message = [] \<rparr>) = ''HIGH''"
proof -
  let ?r = "\<lparr> blockage_score = Fin 1, water_level_class = 2, flood_risk = Fin 1,
              alert_score = Fin 0, alert_level = ''LOW'', alert_message = [] \<rparr>"
  have g: "flt_greater (Fin 0.75) (Fin 0.7)"
    by (simp add: flt_greater_def)
  have s: "flt_greater (alert_score (fuse_and_alert ?r)) (Fin 0.7) \<and> water_level_class ?r = 2"
    by (simp add: fuse_and_alert_fields fused_score_values flt_greater_def)
  from g s alert_decision_high_first [of "Fin 0.75" "Fin 0.9" ?r]
    alert_decision_high_first [of "Fin 0.75" NaN ?r]
  show ?thesis by blast
qed

subsection \<open>The fused score\<close>

text \<open>
  Claim C2, as stated, fails: the expression is evaluated in \<^verbatim>\<open>double\<close> and stored in
  a \<^verbatim>\<open>float\<close>. For blockage score 0.5, class 1 and flood risk 13421773 / 67108864 (the
  \<^verbatim>\<open>float\<close> nearest to 0.2) the stored score is 13757317 / 33554432, which is not
  0.40 * 0.5 + 0.30 * (1 / 2) + 0.30 * (13421773 / 67108864).
\<close>

theorem fused_score_rounded_counterexample:
  "alert_score (fuse_and_alert
      \<lparr> blockage_score = Fin 0.5, water_level_class = 1, flood_risk = Fin (13421773 / 67108864),
        alert_score = Fin 0, alert_level = ''LOW'', alert_message = [] \<rparr>) = Fin (13757317 / 33554432)
   \<and> Fin (13757317 / 33554432) \<noteq>
       Fin (0.40 * 0.5 + 0.30 * (real_of_int 1 / 2) + 0.30 * (13421773 / 67108864))"
  by (simp add: fuse_and_alert_fields fused_score_values)

text \<open>
  Claim C2, amended. For every finite blockage score and flood risk and every class the
  score that \<^verbatim>\<open>fuse_and_alert\<close> stores is
  0.40 * blockage_score + 0.30 * (water_level_class / 2.0) + 0.30 * flood_risk evaluated in
  \<^verbatim>\<open>double\<close> arithmetic, the literals and each operation rounded to nearest, the class
  divided by 2 before it is weighted, and the sum rounded to \<^verbatim>\<open>float\<close>. For scores in
  [0, 1] and a class among 0, 1, 2 it is within \<open>2\<^sup>-\<^sup>2\<^sup>3\<close> of the exact value of the
  expression. When one of the two scores is not-a-number, so is the fused score.
\<close>

theorem fuse_and_alert_weighted_score:
  "(blockage_score r = Fin b \<and> flood_risk r = Fin f \<longrightarrow>
      alert_score (fuse_and_alert r) =
        Fin (round_float
          (round_double
            (round_double
               (round_double (round_double 0.40 * b)
                + round_double (round_double 0.30 *
                    (round_double (round_double (of_int (water_level_class r)) / 2))))
             + round_double (round_double 0.30 * f)))))
   \<and> (blockage_score r = Fin b \<and> flood_risk r = Fin f
        \<and> 0 \<le> b \<and> b \<le> 1 \<and> 0 \<le> f \<and> f \<le> 1 \<and> water_level_class r \<in> {0, 1, 2} \<longrightarrow>
        close_to (alert_score (fuse_and_alert r))
          (0.40 * b + 0.30 * (real_of_int (water_level_class r) / 2) + 0.30 * f) (1 / 2 ^ 23))
   \<and> (blockage_score r = NaN \<or> flood_risk r = NaN \<longrightarrow>
        alert_score (fuse_and_alert r) = NaN)"
proof -
  have a: "blockage_score r = Fin b \<and> flood_risk r = Fin f \<longrightarrow>
      alert_score (fuse_and_alert r) =
        Fin (round_float
          (round_double
            (round_double
               (round_double (round_double 0.40 * b)
                + round_double (round_double 0.30 *
                    (round_double (round_double (of_int (water_level_class r)) / 2))))
             + round_double (round_double 0.30 * f))))"
    by (simp add: fuse_and_alert_fields fused_score_Fin)
  have b: "blockage_score r = Fin b \<and> flood_risk r = Fin f
        \<and> 0 \<le> b \<and> b \<le> 1 \<and> 0 \<le> f \<and> f \<le> 1 \<and> water_level_class r \<in> {0, 1, 2} \<longrightarrow>
        close_to (alert_score (fuse_and_alert r))
          (0.40 * b + 0.30 * (real_of_int (water_level_class r) / 2) + 0.30 * f) (1 / 2 ^ 23)"
    using fused_score_close [of b f "water_level_class r"]
    by (simp add: fuse_and_alert_fields)
  have c: "blockage_score r = NaN \<or> flood_risk r = NaN \<longrightarrow>
        alert_score (fuse_and_alert r) = NaN"
    by (auto simp add: fuse_and_alert_fields fused_score_NaN)
  from a b c show ?thesis by (intro conjI)
qed

theorem fuse_and_alert_weighted_score_witness:
  "alert_score (fuse_and_alert
      \<lparr> blockage_score = Fin 0.5, water_level_class = 1, flood_risk = Fin (13421773 / 67108864),
        alert_score = Fin 0, alert_level = ''LOW'', alert_message = [] \<rparr>) = Fin (13757317 / 33554432)
   \<and> close_to (alert_score (fuse_and_alert
      \<lparr> blockage_score = Fin 0.5, water_level_class = 1, flood_risk = Fin (13421773 / 67108864),
        alert_score = Fin 0, alert_level = ''LOW'', alert_message = [] \<rparr>))
       (0.40 * 0.5 + 0.30 * (real_of_int 1 / 2) + 0.30 * (13421773 / 67108864)) (1 / 2 ^ 23)
   \<and> alert_score (fuse_and_alert
      \<lparr> blockage_score = NaN, water_level_class = 1, flood_risk = Fin (13421773 / 67108864),
        alert_score = Fin 0, alert_level = ''LOW'', alert_message = [] \<rparr>) = NaN"
proof -
  let ?r = "\<lparr> blockage_score = Fin 0.5, water_level_class = 1, flood_risk = Fin (13421773 / 67108864),
        alert_score = Fin 0, alert_level = ''LOW'', alert_message = [] \<rparr>"
  let ?n = "\<lparr> blockage_score = NaN, water_level_class = 1, flood_risk = Fin (13421773 / 67108864),
        alert_score = Fin 0, alert_level = ''LOW'', alert_message = [] \<rparr>"
  have a: "alert_score (fuse_and_alert ?r) = Fin (13757317 / 33554432)"
    by (simp add: fuse_and_alert_fields fused_score_values)
  have h: "blockage_score ?r = Fin 0.5 \<and> flood_risk ?r = Fin (13421773 / 67108864)
        \<and> (0::real) \<le> 0.5 \<and> (0.5::real) \<le> 1 \<and> (0::real) \<le> 13421773 / 67108864
        \<and> (13421773 / 67108864 :: real) \<le> 1 \<and> water_level_class ?r \<in> {0, 1, 2}"
    by simp
  from h fuse_and_alert_weighted_score [of ?r "0.5" "13421773 / 67108864"]
  have "close_to (alert_score (fuse_and_alert ?r))
          (0.40 * 0.5 + 0.30 * (real_of_int (water_level_class ?r) / 2)
           + 0.30 * (13421773 / 67108864)) (1 / 2 ^ 23)"
    by blast
  then have c: "close_to (alert_score (fuse_and_alert ?r))
       (0.40 * 0.5 + 0.30 * (real_of_int 1 / 2) + 0.30 * (13421773 / 67108864)) (1 / 2 ^ 23)"
    by simp
  have "blockage_score ?n = NaN \<or> flood_risk ?n = NaN" by simp
  with fuse_and_alert_weighted_score [of ?n 0 0]
  have n: "alert_score (fuse_and_alert ?n) = NaN" by blast
  from a c n show ?thesis by (intro conjI)
qed

subsection \<open>The two MEDIUM clauses\<close>

text \<open>
  Claim C4, as stated, fails: score 0.1 with class 1 and score 0.55 with class 0 both
  match the one clause \<^verbatim>\<open>alert_score > 0.5 || water_level_class == 1\<close>, and the message
  copied is the same.
\<close>

theorem medium_messages_coincide:
  "snd (alert_decision (Fin 0.1) 1 (Fin 0.1)) = snd (alert_decision (Fin 0.55) 0 (Fin 0.2))"
  by (simp add: alert_decision_def ALERT_THRESHOLD_HIGH_def ALERT_THRESHOLD_MEDIUM_def flt_greater_def)

text \<open>
  Claim C4, amended. When the HIGH clause does not match and the score is greater than
  0.5 or the class is 1, the decision is MEDIUM with the one message of the second
  clause, whichever of the two disjuncts holds: for score 0.1, class 1, flood risk 0.1
  and for score 0.55, class 0, flood risk 0.2 alike.
\<close>

theorem alert_decision_medium_clause:
  "\<not> (flt_greater score (Fin 0.7) \<and> cls = 2) \<Longrightarrow> flt_greater score (Fin 0.5) \<or> cls = 1 \<Longrightarrow>
     alert_decision score cls risk =
       (''MEDIUM'', ''WARNING: Potential blockage or elevated water level detected.'')"
  by (simp add: alert_decision_def ALERT_THRESHOLD_HIGH_def ALERT_THRESHOLD_MEDIUM_def)

theorem alert_decision_medium_clause_witness:
  "alert_decision (Fin 0.1) 1 (Fin 0.1) =
     (''MEDIUM'', ''WARNING: Potential blockage or elevated water level detected.'')
   \<and> alert_decision (Fin 0.55) 0 (Fin 0.2) =
     (''MEDIUM'', ''WARNING: Potential blockage or elevated water level detected.'')"
  using alert_decision_medium_clause [of "Fin 0.1" 1 "Fin 0.1"]
    alert_decision_medium_clause [of "Fin 0.55" 0 "Fin 0.2"]
  by (simp add: flt_greater_def)

text \<open>
  Claim C8. The flood-risk message is the result exactly when the HIGH clause and the
  first MEDIUM clause both fail and the flood risk is greater than 0.7; the level is then
  MEDIUM; for score 0.2, class 0, flood risk 0.8 the result is MEDIUM with the flood-risk
  message, which differs from the message of the first MEDIUM clause (reached with score
  0.55, class 0, flood risk 0.2) although the level is the same.
\<close>

theorem alert_decision_flood_clause:
  "(snd (alert_decision score cls risk) =
      ''WARNING: Flood risk predicted based on weather patterns.''
    \<longleftrightarrow> \<not> (flt_greater score (Fin 0.7) \<and> cls = 2)
        \<and> \<not> (flt_greater score (Fin 0.5) \<or> cls = 1)
        \<and> flt_greater risk (Fin 0.7))
   \<and> (snd (alert_decision score cls risk) =
        ''WARNING: Flood risk predicted based on weather patterns.''
      \<longrightarrow> fst (alert_decision score cls risk) = ''MEDIUM'')
   \<and> snd (alert_decision (Fin 0.2) 0 (Fin 0.8)) \<noteq> snd (alert_decision (Fin 0.55) 0 (Fin 0.2))
   \<and> fst (alert_decision (Fin 0.2) 0 (Fin 0.8)) = fst (alert_decision (Fin 0.55) 0 (Fin 0.2))
   \<and> alert_decision (Fin 0.2) 0 (Fin 0.8) =
       (''MEDIUM'', ''WARNING: Flood risk predicted based on weather patterns.'')"
  by (simp add: alert_decision_def ALERT_THRESHOLD_HIGH_def ALERT_THRESHOLD_MEDIUM_def flt_greater_def)

theorem alert_decision_flood_clause_witness:
  "\<not> (flt_greater (Fin 0.2) (Fin 0.7) \<and> (0::int) = 2)
   \<and> \<not> (flt_greater (Fin 0.2) (Fin 0.5) \<or> (0::int) = 1)
   \<and> flt_greater (Fin 0.8) (Fin 0.7)
   \<and> snd (alert_decision (Fin 0.2) 0 (Fin 0.8)) =
       ''WARNING: Flood risk predicted based on weather patterns.''
   \<and> fst (alert_decision (Fin 0.2) 0 (Fin 0.8)) = ''MEDIUM''"
  using alert_decision_flood_clause [of "Fin 0.2" 0 "Fin 0.8"]
  by (simp add: flt_greater_def)

subsection \<open>Environmental reading\<close>

lemma constrain_Fin:
  "lo \<le> hi \<Longrightarrow> \<exists>y. constrain (Fin x) (Fin lo) (Fin hi) = Fin y \<and> lo \<le> y \<and> y \<le> hi"
  by (simp add: constrain_def flt_greater_def)

lemma read_dht22_invalid:
  "isnan temp \<or> isnan hum \<Longrightarrow> read_dht22 temp hum e = e"
  by (simp add: read_dht22_def)

lemma read_dht22_valid:
  "temperature (read_dht22 (Fin t) (Fin h) e) = Fin (max 15 (min 40 t))"
  "humidity (read_dht22 (Fin t) (Fin h) e) = Fin (max 0 (min 100 h))"
  by (auto simp add: read_dht22_def constrain_def flt_greater_def)

lemma read_bmp280_valid:
  "pressure (read_bmp280 (Fin x) e) =
     Fin (max 990 (min 1040 (round_float (round_double (x / 100)))))"
  by (auto simp add: read_bmp280_def div_d_def Let_def constrain_def flt_greater_def)

lemma read_bmp280_sea_level:
  "pressure (read_bmp280 (Fin 101325) e) = Fin (4053 / 4)"
  by (simp add: read_bmp280_valid round_eval)

lemma update_water_level_buffer_valid:
  "water_level (current_env_data (update_water_level_buffer (Fin w) st)) =
     Fin (max 0 (min 100 w))"
  by (auto simp add: update_water_level_buffer_def constrain_def flt_greater_def)

text \<open>
  Claim C5 holds for the two fields of \<^verbatim>\<open>read_dht22\<close>, which returns before storing
  when either value is not-a-number. \<^verbatim>\<open>read_bmp280\<close> has no such test: a pressure read
  that is not-a-number passes through \<^verbatim>\<open>constrain\<close> (both comparisons are false) and
  replaces the stored pressure, here 1000 hPa.
\<close>

theorem read_bmp280_stores_nan:
  "pressure (read_bmp280 NaN
      \<lparr> temperature = Fin 25, humidity = Fin 60, pressure = Fin 1000,
        rainfall = Fin 0, water_level = Fin 10 \<rparr>) = NaN
   \<and> read_dht22 NaN NaN
      \<lparr> temperature = Fin 25, humidity = Fin 60, pressure = Fin 1000,
        rainfall = Fin 0, water_level = Fin 10 \<rparr> =
      \<lparr> temperature = Fin 25, humidity = Fin 60, pressure = Fin 1000,
        rainfall = Fin 0, water_level = Fin 10 \<rparr>"
  by (simp add: read_bmp280_def div_d_def read_dht22_def constrain_def flt_greater_def)

subsection \<open>Environmental features\<close>

lemma env_get_data_nth:
  "env_get_data e offset len ! 0 = div_f (sub_f (temperature e) (Fin 15)) (Fin 25)"
  "env_get_data e offset len ! 1 = div_f (humidity e) (Fin 100)"
  "env_get_data e offset len ! 2 = sub_f (Fin 1) (div_f (sub_f (pressure e) (Fin 990)) (Fin 50))"
  "env_get_data e offset len ! 3 = div_f (rainfall e) (Fin 100)"
  "env_get_data e offset len ! 4 = div_f (water_level e) (Fin 100)"
  by (simp_all add: env_get_data_def)

text \<open>The features of the start-up state, where every field is 0.\<close>

lemma env_get_data_start_up:
  "env_get_data (current_env_data init_state) 0 5 =
     [Fin (- 5033165 / 8388608), Fin 0, Fin (5452595 / 262144), Fin 0, Fin 0]"
  by (simp add: env_get_data_def init_state_def div_f_def sub_f_def round_eval)

lemma percent_feature:
  assumes "0 \<le> x" "x \<le> 100"
  shows "in_unit (div_f (Fin x) (Fin 100)) \<and> close_to (div_f (Fin x) (Fin 100)) (x / 100) (1 / 2 ^ 22)"
proof -
  have q: "0 \<le> x / 100" "x / 100 \<le> 1" using assms by simp_all
  have u: "0 \<le> round_float (x / 100) \<and> round_float (x / 100) \<le> 1"
    using q by (rule round_float_unit)
  have e: "\<bar>round_float (x / 100) - x / 100\<bar> \<le> 1 / 16777216"
    using q by (intro round_float_error) linarith
  have "\<bar>round_float (x / 100) - x / 100\<bar> \<le> 1 / 4194304" using e by linarith
  then show ?thesis using u by (simp add: div_f_def in_unit_def close_to_def)
qed

lemma temperature_feature:
  assumes "15 \<le> t" "t \<le> 40"
  shows "in_unit (div_f (sub_f (Fin t) (Fin 15)) (Fin 25))
         \<and> close_to (div_f (sub_f (Fin t) (Fin 15)) (Fin 25)) ((t - 15) / 25) (1 / 2 ^ 22)"
proof -
  define u where "u = round_float (t - 15)"
  have u0: "0 \<le> u" unfolding u_def using assms by (intro round_float_nonneg) linarith
  have u1: "u \<le> 25"
    using round_float_le_int [of "t - 15" 25] assms by (simp add: u_def)
  have ue: "\<bar>u - (t - 15)\<bar> \<le> 1 / 524288"
    unfolding u_def using assms by (intro round_float_error_64) linarith
  have q: "0 \<le> u / 25" "u / 25 \<le> 1" using u0 u1 by simp_all
  have z: "0 \<le> round_float (u / 25) \<and> round_float (u / 25) \<le> 1"
    using q by (rule round_float_unit)
  have ze: "\<bar>round_float (u / 25) - u / 25\<bar> \<le> 1 / 16777216"
    using q by (intro round_float_error) linarith
  have "\<bar>(u - (t - 15)) / 25\<bar> \<le> 1 / 524288 / 25"
    using ue by (simp add: divide_right_mono)
  moreover have "(u - (t - 15)) / 25 = u / 25 - (t - 15) / 25"
    by (simp add: diff_divide_distrib)
  ultimately have "\<bar>round_float (u / 25) - (t - 15) / 25\<bar> \<le> 1 / 4194304"
    using ze by linarith
  then show ?thesis
    using z by (simp add: div_f_def sub_f_def in_unit_def close_to_def u_def)
qed

lemma pressure_feature:
  assumes "990 \<le> p" "p \<le> 1040"
  shows "in_unit (sub_f (Fin 1) (div_f (sub_f (Fin p) (Fin 990)) (Fin 50)))
         \<and> close_to (sub_f (Fin 1) (div_f (sub_f (Fin p) (Fin 990)) (Fin 50)))
              (1 - (p - 990) / 50) (1 / 2 ^ 22)"
proof -
  define u where "u = round_float (p - 990)"
  define v where "v = round_float (u / 50)"
  have u0: "0 \<le> u" unfolding u_def using assms by (intro round_float_nonneg) linarith
  have u1: "u \<le> 50"
    using round_float_le_int [of "p - 990" 50] assms by (simp add: u_def)
  have ue: "\<bar>u - (p - 990)\<bar> \<le> 1 / 524288"
    unfolding u_def using assms by (intro round_float_error_64) linarith
  have q: "0 \<le> u / 50" "u / 50 \<le> 1" using u0 u1 by simp_all
  have v01: "0 \<le> v \<and> v \<le> 1" unfolding v_def using q by (rule round_float_unit)
  have ve: "\<bar>v - u / 50\<bar> \<le> 1 / 16777216"
    unfolding v_def using q by (intro round_float_error) linarith
  have w: "0 \<le> 1 - v" "1 - v \<le> 1" using v01 by simp_all
  have z: "0 \<le> round_float (1 - v) \<and> round_float (1 - v) \<le> 1"
    using w by (rule round_float_unit)
  have ze: "\<bar>round_float (1 - v) - (1 - v)\<bar> \<le> 1 / 16777216"
    using w by (intro round_float_error) linarith
  have "\<bar>(u - (p - 990)) / 50\<bar> \<le> 1 / 524288 / 50"
    using ue by (simp add: divide_right_mono)
  moreover have "(u - (p - 990)) / 50 = u / 50 - (p - 990) / 50"
    by (simp add: diff_divide_distrib)
  ultimately have "\<bar>round_float (1 - v) - (1 - (p - 990) / 50)\<bar> \<le> 1 / 4194304"
    using ve ze by linarith
  then show ?thesis
    using z by (simp add: div_f_def sub_f_def in_unit_def close_to_def u_def v_def)
qed

text \<open>
  Claim C6. The callback of the environmental model writes five values. Each depends on
  its own field alone and, for a finite field, is the stated rescaling evaluated in
  \<^verbatim>\<open>float\<close> arithmetic: (t - 15) / 25, h / 100, 1 - (p - 990) / 50, r / 100 and
  w / 100. When the field lies within its clamp bounds ([15, 40], [0, 100], [990, 1040],
  [0, 100], [0, 100]) the value lies in [0, 1] and is within \<open>2\<^sup>-\<^sup>2\<^sup>2\<close> of the exact
  rescaling, whatever the other fields hold.
\<close>

theorem env_get_data_normalized:
  "length (env_get_data e offset len) = 5
   \<and> (temperature e = Fin t \<longrightarrow>
        env_get_data e offset len ! 0 = Fin (round_float (round_float (t - 15) / 25)))
   \<and> (humidity e = Fin h \<longrightarrow> env_get_data e offset len ! 1 = Fin (round_float (h / 100)))
   \<and> (pressure e = Fin p \<longrightarrow>
        env_get_data e offset len ! 2 =
          Fin (round_float (1 - round_float (round_float (p - 990) / 50))))
   \<and> (rainfall e = Fin r \<longrightarrow> env_get_data e offset len ! 3 = Fin (round_float (r / 100)))
   \<and> (water_level e = Fin w \<longrightarrow> env_get_data e offset len ! 4 = Fin (round_float (w / 100)))
   \<and> (temperature e = Fin t \<and> 15 \<le> t \<and> t \<le> 40 \<longrightarrow>
        in_unit (env_get_data e offset len ! 0)
        \<and> close_to (env_get_data e offset len ! 0) ((t - 15) / 25) (1 / 2 ^ 22))
   \<and> (humidity e = Fin h \<and> 0 \<le> h \<and> h \<le> 100 \<longrightarrow>
        in_unit (env_get_data e offset len ! 1)
        \<and> close_to (env_get_data e offset len ! 1) (h / 100) (1 / 2 ^ 22))
   \<and> (pressure e = Fin p \<and> 990 \<le> p \<and> p \<le> 1040 \<longrightarrow>
        in_unit (env_get_data e offset len ! 2)
        \<and> close_to (env_get_data e offset len ! 2) (1 - (p - 990) / 50) (1 / 2 ^ 22))
   \<and> (rainfall e = Fin r \<and> 0 \<le> r \<and> r \<le> 100 \<longrightarrow>
        in_unit (env_get_data e offset len ! 3)
        \<and> close_to (env_get_data e offset len ! 3) (r / 100) (1 / 2 ^ 22))
   \<and> (water_level e = Fin w \<and> 0 \<le> w \<and> w \<le> 100 \<longrightarrow>
        in_unit (env_get_data e offset len ! 4)
        \<and> close_to (env_get_data e offset len ! 4) (w / 100) (1 / 2 ^ 22))"
proof -
  have l: "length (env_get_data e offset len) = 5"
    by (simp add: env_get_data_def)
  have v: "temperature e = Fin t \<longrightarrow>
        env_get_data e offset len ! 0 = Fin (round_float (round_float (t - 15) / 25))"
    "humidity e = Fin h \<longrightarrow> env_get_data e offset len ! 1 = Fin (round_float (h / 100))"
    "pressure e = Fin p \<longrightarrow>
        env_get_data e offset len ! 2 =
          Fin (round_float (1 - round_float (round_float (p - 990) / 50)))"
    "rainfall e = Fin r \<longrightarrow> env_get_data e offset len ! 3 = Fin (round_float (r / 100))"
    "water_level e = Fin w \<longrightarrow> env_get_data e offset len ! 4 = Fin (round_float (w / 100))"
    unfolding env_get_data_nth by (simp_all add: div_f_def sub_f_def)
  have b0: "temperature e = Fin t \<and> 15 \<le> t \<and> t \<le> 40 \<longrightarrow>
        in_unit (env_get_data e offset len ! 0)
        \<and> close_to (env_get_data e offset len ! 0) ((t - 15) / 25) (1 / 2 ^ 22)"
    using temperature_feature [of t] unfolding env_get_data_nth by simp
  have b1: "humidity e = Fin h \<and> 0 \<le> h \<and> h \<le> 100 \<longrightarrow>
        in_unit (env_get_data e offset len ! 1)
        \<and> close_to (env_get_data e offset len ! 1) (h / 100) (1 / 2 ^ 22)"
    using percent_feature [of h] unfolding env_get_data_nth by simp
  have b2: "pressure e = Fin p \<and> 990 \<le> p \<and> p \<le> 1040 \<longrightarrow>
        in_unit (env_get_data e offset len ! 2)
        \<and> close_to (env_get_data e offset len ! 2) (1 - (p - 990) / 50) (1 / 2 ^ 22)"
    using pressure_feature [of p] unfolding env_get_data_nth by simp
  have b3: "rainfall e = Fin r \<and> 0 \<le> r \<and> r \<le> 100 \<longrightarrow>
        in_unit (env_get_data e offset len ! 3)
        \<and> close_to (env_get_data e offset len ! 3) (r / 100) (1 / 2 ^ 22)"
    using percent_feature [of r] unfolding env_get_data_nth by simp
  have b4: "water_level e = Fin w \<and> 0 \<le> w \<and> w \<le> 100 \<longrightarrow>
        in_unit (env_get_data e offset len ! 4)
        \<and> close_to (env_get_data e offset len ! 4) (w / 100) (1 / 2 ^ 22)"
    using percent_feature [of w] unfolding env_get_data_nth by simp
  from l v b0 b1 b2 b3 b4 show ?thesis by (intro conjI)
qed

theorem env_get_data_normalized_witness:
  "env_get_data \<lparr> temperature = Fin 40, humidity = Fin 50, pressure = Fin 1040,
        rainfall = Fin 100, water_level = Fin 0 \<rparr> 0 5 =
     [Fin 1, Fin 0.5, Fin 0, Fin 1, Fin 0]
   \<and> in_unit (env_get_data \<lparr> temperature = Fin 40, humidity = Fin 50, pressure = Fin 1040,
        rainfall = Fin 100, water_level = Fin 0 \<rparr> 0 5 ! 0)
   \<and> in_unit (env_get_data \<lparr> temperature = Fin 40, humidity = Fin 50, pressure = Fin 1040,
        rainfall = Fin 100, water_level = Fin 0 \<rparr> 0 5 ! 1)
   \<and> in_unit (env_get_data \<lparr> temperature = Fin 40, humidity = Fin 50, pressure = Fin 1040,
        rainfall = Fin 100, water_level = Fin 0 \<rparr> 0 5 ! 2)
   \<and> in_unit (env_get_data \<lparr> temperature = Fin 40, humidity = Fin 50, pressure = Fin 1040,
        rainfall = Fin 100, water_level = Fin 0 \<rparr> 0 5 ! 3)
   \<and> in_unit (env_get_data \<lparr> temperature = Fin 40, humidity = Fin 50, pressure = Fin 1040,
        rainfall = Fin 100, water_level = Fin 0 \<rparr> 0 5 ! 4)
   \<and> env_get_data \<lparr> temperature = Fin 25, humidity = Fin 60, pressure = NaN,
        rainfall = Fin 0, water_level = Fin 10 \<rparr> 0 5 ! 0 = Fin (13421773 / 33554432)
   \<and> in_unit (env_get_data \<lparr> temperature = Fin 25, humidity = Fin 60, pressure = NaN,
        rainfall = Fin 0, water_level = Fin 10 \<rparr> 0 5 ! 0)
   \<and> close_to (env_get_data \<lparr> temperature = Fin 25, humidity = Fin 60, pressure = NaN,
        rainfall = Fin 0, water_level = Fin 10 \<rparr> 0 5 ! 0) ((25 - 15) / 25) (1 / 2 ^ 22)"
proof -
  let ?e1 = "\<lparr> temperature = Fin 40, humidity = Fin 50, pressure = Fin 1040,
        rainfall = Fin 100, water_level = Fin 0 \<rparr>"
  let ?e2 = "\<lparr> temperature = Fin 25, humidity = Fin 60, pressure = NaN,
        rainfall = Fin 0, water_level = Fin 10 \<rparr>"
  have a: "env_get_data ?e1 0 5 = [Fin 1, Fin 0.5, Fin 0, Fin 1, Fin 0]"
    by (simp add: env_get_data_def div_f_def sub_f_def round_eval)
  have v: "env_get_data ?e2 0 5 ! 0 = Fin (13421773 / 33554432)"
    by (simp add: env_get_data_def div_f_def sub_f_def round_eval)
  have h1: "temperature ?e1 = Fin 40 \<and> (15::real) \<le> 40 \<and> (40::real) \<le> 40"
    "humidity ?e1 = Fin 50 \<and> (0::real) \<le> 50 \<and> (50::real) \<le> 100"
    "pressure ?e1 = Fin 1040 \<and> (990::real) \<le> 1040 \<and> (1040::real) \<le> 1040"
    "rainfall ?e1 = Fin 100 \<and> (0::real) \<le> 100 \<and> (100::real) \<le> 100"
    "water_level ?e1 = Fin 0 \<and> (0::real) \<le> 0 \<and> (0::real) \<le> 100"
    by simp_all
  have h2: "temperature ?e2 = Fin 25 \<and> (15::real) \<le> 25 \<and> (25::real) \<le> 40"
    by simp
  from h1 env_get_data_normalized [of ?e1 0 5 40 50 1040 100 0]
  have u1: "in_unit (env_get_data ?e1 0 5 ! 0)" "in_unit (env_get_data ?e1 0 5 ! 1)"
    "in_unit (env_get_data ?e1 0 5 ! 2)" "in_unit (env_get_data ?e1 0 5 ! 3)"
    "in_unit (env_get_data ?e1 0 5 ! 4)"
    by blast+
  from h2 env_get_data_normalized [of ?e2 0 5 25 60 0 0 10]
  have u2: "in_unit (env_get_data ?e2 0 5 ! 0)"
    "close_to (env_get_data ?e2 0 5 ! 0) ((25 - 15) / 25) (1 / 2 ^ 22)"
    by blast+
  from a v u1 u2 show ?thesis by (intro conjI)
qed

subsection \<open>Rolling window\<close>

lemma rotate_list_update:
  assumes "idx < length buf"
  shows "rotate ((idx + 1) mod length buf) (buf[idx := v]) = tl (rotate idx buf) @ [v]"
proof -
  have d: "drop idx buf \<noteq> []" using assms by simp
  have "rotate ((idx + 1) mod length buf) (buf[idx := v]) = rotate (Suc idx) (buf[idx := v])"
    by (metis Suc_eq_plus1 length_list_update rotate_conv_mod)
  also have "\<dots> = rotate1 (rotate idx (buf[idx := v]))" by simp
  also have "rotate idx (buf[idx := v]) = drop idx (buf[idx := v]) @ take idx (buf[idx := v])"
    using assms by (simp add: rotate_drop_take)
  also have "\<dots> = (v # drop (Suc idx) buf) @ take idx buf"
    using assms by (simp add: drop_update_cancel upd_conv_take_nth_drop)
  also have "rotate1 \<dots> = drop (Suc idx) buf @ take idx buf @ [v]" by simp
  also have "\<dots> = tl (drop idx buf @ take idx buf) @ [v]"
    using d by (simp add: tl_drop drop_Suc)
  also have "drop idx buf @ take idx buf = rotate idx buf"
    using assms by (simp add: rotate_drop_take)
  finally show ?thesis .
qed

lemma window_invariant:
  "length (water_level_buffer (foldl (\<lambda>s v. update_water_level_buffer v s) init_state vs)) = 60
   \<and> buffer_index (foldl (\<lambda>s v. update_water_level_buffer v s) init_state vs) < 60
   \<and> rotate (buffer_index (foldl (\<lambda>s v. update_water_level_buffer v s) init_state vs))
        (water_level_buffer (foldl (\<lambda>s v. update_water_level_buffer v s) init_state vs))
      = drop (length vs) (replicate 60 (Fin 0) @ vs)"
proof (induction vs rule: rev_induct)
  case Nil
  show ?case by (simp add: init_state_def)
next
  case (snoc v vs)
  let ?st = "foldl (\<lambda>s v. update_water_level_buffer v s) init_state vs"
  from snoc have len: "length (water_level_buffer ?st) = 60"
    and idx: "buffer_index ?st < 60"
    and rot: "rotate (buffer_index ?st) (water_level_buffer ?st)
                = drop (length vs) (replicate 60 (Fin 0) @ vs)"
    by simp_all
  have "rotate ((buffer_index ?st + 1) mod 60) ((water_level_buffer ?st)[buffer_index ?st := v])
          = tl (rotate (buffer_index ?st) (water_level_buffer ?st)) @ [v]"
    using rotate_list_update [of "buffer_index ?st" "water_level_buffer ?st" v] len idx by simp
  also have "\<dots> = tl (drop (length vs) (replicate 60 (Fin 0) @ vs)) @ [v]"
    by (simp only: rot)
  also have "\<dots> = drop (Suc (length vs)) (replicate 60 (Fin 0) @ vs) @ [v]"
    by (simp only: tl_drop drop_Suc)
  also have "\<dots> = drop (length (vs @ [v])) (replicate 60 (Fin 0) @ vs @ [v])"
    by simp
  finally show ?case
    using len by (simp add: update_water_level_buffer_def)
qed

lemma sensor_get_data_rotate:
  assumes "length (water_level_buffer st) = 60"
  shows "sensor_get_data st offset 60 =
           map (\<lambda>v. as_float (div_d v (Fin 100))) (rotate (buffer_index st) (water_level_buffer st))"
  using assms by (intro nth_equalityI) (simp_all add: sensor_get_data_def nth_rotate)

text \<open>
  Claim C3, amended. After any sequence of calls of \<^verbatim>\<open>update_water_level_buffer\<close>
  from the zero-filled window, a readout of length 60 has exactly 60 values: the last 60
  entries of sixty zeros followed by the recorded values, each divided by 100 (in
  \<^verbatim>\<open>double\<close>, stored as \<^verbatim>\<open>float\<close>), oldest first, entry \<open>i\<close> being the slot \<open>i\<close> places after the write cursor. So after 60 + k
  calls the readout is the recorded values without the oldest k; before 60 calls the
  slots not yet written read as 0.
\<close>

theorem window_readout_last_60:
  "length (sensor_get_data (foldl (\<lambda>s v. update_water_level_buffer v s) init_state vs) offset 60) = 60
   \<and> sensor_get_data (foldl (\<lambda>s v. update_water_level_buffer v s) init_state vs) offset 60 =
       map (\<lambda>v. as_float (div_d v (Fin 100))) (drop (length vs) (replicate 60 (Fin 0) @ vs))
   \<and> (\<forall>i<60. sensor_get_data (foldl (\<lambda>s v. update_water_level_buffer v s) init_state vs) offset 60 ! i =
         as_float (div_d
           (water_level_buffer (foldl (\<lambda>s v. update_water_level_buffer v s) init_state vs)
              ! ((buffer_index (foldl (\<lambda>s v. update_water_level_buffer v s) init_state vs) + i) mod 60))
           (Fin 100)))
   \<and> (length vs = 60 + k \<longrightarrow>
        sensor_get_data (foldl (\<lambda>s v. update_water_level_buffer v s) init_state vs) offset 60 =
          map (\<lambda>v. as_float (div_d v (Fin 100))) (drop k vs))"
proof -
  let ?st = "foldl (\<lambda>s v. update_water_level_buffer v s) init_state vs"
  have a: "sensor_get_data ?st offset 60 =
       map (\<lambda>v. as_float (div_d v (Fin 100))) (drop (length vs) (replicate 60 (Fin 0) @ vs))"
    using window_invariant [of vs] sensor_get_data_rotate [of ?st offset] by simp
  have b: "length (sensor_get_data ?st offset 60) = 60"
    by (simp add: sensor_get_data_def)
  have c: "\<forall>i<60. sensor_get_data ?st offset 60 ! i =
         as_float (div_d (water_level_buffer ?st ! ((buffer_index ?st + i) mod 60)) (Fin 100))"
    by (simp add: sensor_get_data_def)
  have d: "length vs = 60 + k \<longrightarrow>
        sensor_get_data ?st offset 60 = map (\<lambda>v. as_float (div_d v (Fin 100))) (drop k vs)"
    using a by simp
  from a b c d show ?thesis by blast
qed

theorem window_readout_last_60_witness:
  "length (map (\<lambda>n. Fin (real n)) [0..<61]) = 60 + 1
   \<and> length (sensor_get_data (foldl (\<lambda>s v. update_water_level_buffer v s) init_state (map (\<lambda>n. Fin (real n)) [0..<61])) 0 60) = 60
   \<and> sensor_get_data (foldl (\<lambda>s v. update_water_level_buffer v s) init_state (map (\<lambda>n. Fin (real n)) [0..<61])) 0 60 = map (\<lambda>v. as_float (div_d v (Fin 100))) (drop 1 (map (\<lambda>n. Fin (real n)) [0..<61]))
   \<and> (0::nat) < 60
   \<and> sensor_get_data (foldl (\<lambda>s v. update_water_level_buffer v s) init_state (map (\<lambda>n. Fin (real n)) [0..<61])) 0 60 ! 0 =
       as_float (div_d (water_level_buffer (foldl (\<lambda>s v. update_water_level_buffer v s) init_state (map (\<lambda>n. Fin (real n)) [0..<61])) ! ((buffer_index (foldl (\<lambda>s v. update_water_level_buffer v s) init_state (map (\<lambda>n. Fin (real n)) [0..<61])) + 0) mod 60)) (Fin 100))"
proof -
  have l: "length (map (\<lambda>n. Fin (real n)) [0..<61]) = 60 + 1" by simp
  have z: "(0::nat) < 60" by simp
  from l z window_readout_last_60 [of "(map (\<lambda>n. Fin (real n)) [0..<61])" 0 1]
  show ?thesis by blast
qed

text \<open>
  Claim C3, as stated, fails before the window is full: after the single call with 50 the
  first value of the readout is 0, which is not the recorded value divided by 100 (0.5).
\<close>

theorem window_cold_start_counterexample:
  "sensor_get_data (update_water_level_buffer (Fin 50) init_state) 0 60 ! 0 = Fin 0
   \<and> as_float (div_d (Fin 50) (Fin 100)) \<noteq> Fin 0"
proof -
  have z: "as_float (div_d (Fin 0) (Fin 100)) = Fin 0"
    by (simp add: div_d_def round_double_def round_float_def round_to_def)
  have h: "as_float (div_d (Fin 50) (Fin 100)) = Fin (1 / 2)"
    by (simp add: div_d_def round_eval)
  show ?thesis
    by (simp add: h sensor_get_data_def update_water_level_buffer_def init_state_def z)
qed

subsection \<open>Inference\<close>

text \<open>
  Claim C10. \<^verbatim>\<open>run_visual_inference\<close> gives the same score for any two frames: the
  signal handed to the classifier has the all-zero callback and nothing of the frame, so
  the score is what the classifier makes of that one signal.
\<close>

theorem run_visual_inference_ignores_frame:
  "run_visual_inference run_classifier n frame1 = run_visual_inference run_classifier n frame2
   \<and> visual_get_data offset len = replicate len (Fin 0)
   \<and> run_visual_inference run_classifier n frame1 =
       (if fst (run_classifier \<lparr> total_length = n, get_data = (\<lambda>offset len. replicate len (Fin 0)) \<rparr>)
            \<noteq> EI_IMPULSE_OK then Fin 0
        else label_value ''blockage'' (Fin 0)
               (snd (run_classifier \<lparr> total_length = n, get_data = (\<lambda>offset len. replicate len (Fin 0)) \<rparr>)))"
proof -
  have "visual_get_data = (\<lambda>offset len. replicate len (Fin 0))"
    by (rule ext)+ (simp add: visual_get_data_def)
  then show ?thesis
    by (simp add: run_visual_inference_def Let_def visual_get_data_def)
qed

lemma sensor_get_data_inference_results:
  "sensor_get_data (st\<lparr>inference_results := r\<rparr>) = sensor_get_data st"
  by (rule ext)+ (simp add: sensor_get_data_def)

lemma run_sensor_inference_inference_results:
  "run_sensor_inference rc (st\<lparr>inference_results := r\<rparr>) = run_sensor_inference rc st"
  by (simp add: run_sensor_inference_def sensor_get_data_inference_results)

lemma run_environmental_inference_inference_results:
  "run_environmental_inference rc (st\<lparr>inference_results := r\<rparr>) = run_environmental_inference rc st"
  by (simp add: run_environmental_inference_def)

lemma inference_cycle_state:
  "fst (inference_cycle rc n fb status ms st) =
     st\<lparr>inference_results := fuse_and_alert
          ((inference_results st)
             \<lparr>blockage_score := run_visual_inference rc n fb,
              water_level_class := run_sensor_inference rc st,
              flood_risk := run_environmental_inference rc st\<rparr>)\<rparr>"
  by (simp add: inference_cycle_def Let_def run_sensor_inference_inference_results
      run_environmental_inference_inference_results)

lemma inference_cycle_push:
  "snd (inference_cycle rc n fb status ms st) =
     (if alert_level (inference_results (fst (inference_cycle rc n fb status ms st))) \<noteq> ''LOW''
      then send_alert status ms (fst (inference_cycle rc n fb status ms st)) else None)"
  by (simp add: inference_cycle_def Let_def)

text \<open>
  Claim C7. In an inference cycle, a classifier call that returns an error leaves the
  default of its model (blockage score 0.0, class 0, flood risk 0.0); each of the three
  outputs is what its own inference function returns, whatever the other calls did; and
  the results stored are the fusion of these three outputs.
\<close>

theorem classifier_failure_defaults:
  "(fst (rc \<lparr> total_length = n, get_data = visual_get_data \<rparr>) \<noteq> EI_IMPULSE_OK \<longrightarrow>
      blockage_score (inference_results (fst (inference_cycle rc n fb status ms st))) = Fin 0)
   \<and> (fst (rc \<lparr> total_length = 60, get_data = sensor_get_data st \<rparr>) \<noteq> EI_IMPULSE_OK \<longrightarrow>
      water_level_class (inference_results (fst (inference_cycle rc n fb status ms st))) = 0)
   \<and> (fst (rc \<lparr> total_length = 5, get_data = env_get_data (current_env_data st) \<rparr>) \<noteq> EI_IMPULSE_OK \<longrightarrow>
      flood_risk (inference_results (fst (inference_cycle rc n fb status ms st))) = Fin 0)
   \<and> blockage_score (inference_results (fst (inference_cycle rc n fb status ms st))) =
       run_visual_inference rc n fb
   \<and> water_level_class (inference_results (fst (inference_cycle rc n fb status ms st))) =
       run_sensor_inference rc st
   \<and> flood_risk (inference_results (fst (inference_cycle rc n fb status ms st))) =
       run_environmental_inference rc st
   \<and> inference_results (fst (inference_cycle rc n fb status ms st)) =
       fuse_and_alert ((inference_results st)
         \<lparr>blockage_score := run_visual_inference rc n fb,
          water_level_class := run_sensor_inference rc st,
          flood_risk := run_environmental_inference rc st\<rparr>)"
  by (simp add: inference_cycle_state fuse_and_alert_fields)
     (simp add: run_visual_inference_def run_sensor_inference_def
        run_environmental_inference_def Let_def)

theorem classifier_failure_defaults_witness:
  "(let r = inference_results (fst (inference_cycle (\<lambda>s. if total_length s = 9216 then (-1, []) else (0, [(''blockage'', Fin 0.875), (''elevated'', Fin 0.9375), (''high_risk'', Fin 0.625)])) 9216 [] WL_CONNECTED 0 init_state))
    in blockage_score r = Fin 0 \<and> water_level_class r = 1 \<and> flood_risk r = Fin 0.625
       \<and> alert_score r = Fin (11324621 / 33554432) \<and> alert_level r = ''MEDIUM'')
   \<and> (let r = inference_results (fst (inference_cycle (\<lambda>s. if total_length s = 60 then (-1, []) else (0, [(''blockage'', Fin 0.875), (''elevated'', Fin 0.9375), (''high_risk'', Fin 0.625)])) 9216 [] WL_CONNECTED 0 init_state))
    in blockage_score r = Fin 0.875 \<and> water_level_class r = 0 \<and> flood_risk r = Fin 0.625
       \<and> alert_score r = Fin (4508877 / 8388608) \<and> alert_level r = ''MEDIUM'')
   \<and> (let r = inference_results (fst (inference_cycle (\<lambda>s. if total_length s = 5 then (-1, []) else (0, [(''blockage'', Fin 0.875), (''elevated'', Fin 0.9375), (''high_risk'', Fin 0.625)])) 9216 [] WL_CONNECTED 0 init_state))
    in blockage_score r = Fin 0.875 \<and> water_level_class r = 1 \<and> flood_risk r = Fin 0
       \<and> alert_score r = Fin 0.5 \<and> alert_level r = ''MEDIUM'')"
  using classifier_failure_defaults [where rc = "(\<lambda>s. if total_length s = 9216 then (-1, []) else (0, [(''blockage'', Fin 0.875), (''elevated'', Fin 0.9375), (''high_risk'', Fin 0.625)]))" and n = 9216 and fb = "[]"
      and status = WL_CONNECTED and ms = 0 and st = init_state]
    classifier_failure_defaults [where rc = "(\<lambda>s. if total_length s = 60 then (-1, []) else (0, [(''blockage'', Fin 0.875), (''elevated'', Fin 0.9375), (''high_risk'', Fin 0.625)]))" and n = 9216 and fb = "[]"
      and status = WL_CONNECTED and ms = 0 and st = init_state]
    classifier_failure_defaults [where rc = "(\<lambda>s. if total_length s = 5 then (-1, []) else (0, [(''blockage'', Fin 0.875), (''elevated'', Fin 0.9375), (''high_risk'', Fin 0.625)]))" and n = 9216 and fb = "[]"
      and status = WL_CONNECTED and ms = 0 and st = init_state]
  by (simp add: Let_def EI_IMPULSE_OK_def run_visual_inference_def run_sensor_inference_def
      run_environmental_inference_def fuse_and_alert_def fused_score_values
      alert_decision_def ALERT_THRESHOLD_HIGH_def ALERT_THRESHOLD_MEDIUM_def flt_greater_def
      init_state_def)

subsection \<open>Alert push\<close>

text \<open>
  Claim C9. An inference cycle hands a payload to the transport exactly when the level it
  computed is not LOW and WiFi is connected, and the payload carries that level and
  message. The state after the cycle does not depend on the WiFi status or on the clock:
  pushed or not, the computed alert state is what a later \<^verbatim>\<open>handle_alerts\<close> reads.
\<close>

theorem alert_push_condition:
  "(snd (inference_cycle rc n fb status ms st) \<noteq> None \<longleftrightarrow>
      alert_level (inference_results (fst (inference_cycle rc n fb status ms st))) \<noteq> ''LOW''
      \<and> status = WL_CONNECTED)
   \<and> fst (inference_cycle rc n fb status ms st) = fst (inference_cycle rc n fb status' ms' st)
   \<and> handle_alerts (fst (inference_cycle rc n fb status ms st)) =
       handle_alerts (fst (inference_cycle rc n fb status' ms' st))
   \<and> (\<forall>p. snd (inference_cycle rc n fb status ms st) = Some p \<longrightarrow>
        p_alert_level p = alert_level (inference_results (fst (inference_cycle rc n fb status ms st)))
        \<and> p_alert_message p =
            alert_message (inference_results (fst (inference_cycle rc n fb status ms st))))"
  by (auto simp add: inference_cycle_push inference_cycle_state send_alert_def)

theorem alert_push_condition_witness:
  "alert_level (inference_results (fst (inference_cycle (\<lambda>s. (0, [(''critical'', Fin (7 / 8)), (''blockage'', Fin 1), (''high_risk'', Fin 1)])) 9216 [] WL_CONNECTED 5000 init_state)))
     = ''HIGH''
   \<and> snd (inference_cycle (\<lambda>s. (0, [(''critical'', Fin (7 / 8)), (''blockage'', Fin 1), (''high_risk'', Fin 1)])) 9216 [] WL_CONNECTED 5000 init_state) \<noteq> None
   \<and> snd (inference_cycle (\<lambda>s. (0, [(''critical'', Fin (7 / 8)), (''blockage'', Fin 1), (''high_risk'', Fin 1)])) 9216 [] WL_CONNECTED 5000 init_state) =
       Some \<lparr> p_timestamp = 5000, p_alert_level = ''HIGH'',
              p_alert_message = ''CRITICAL: Drainage blockage detected with high water level!'',
              p_blockage_score = Fin 1, p_water_level_class = 2, p_flood_risk = Fin 1,
              p_temperature = Fin 0, p_humidity = Fin 0, p_water_level = Fin 0 \<rparr>
   \<and> snd (inference_cycle (\<lambda>s. (0, [(''critical'', Fin (7 / 8)), (''blockage'', Fin 1), (''high_risk'', Fin 1)])) 9216 [] WL_DISCONNECTED 5000 init_state) = None
   \<and> handle_alerts (fst (inference_cycle (\<lambda>s. (0, [(''critical'', Fin (7 / 8)), (''blockage'', Fin 1), (''high_risk'', Fin 1)])) 9216 [] WL_DISCONNECTED 5000 init_state)) =
       (''HIGH'', ''CRITICAL: Drainage blockage detected with high water level!'', Fin 1)
   \<and> alert_level (inference_results (fst (inference_cycle (\<lambda>s. (0, [])) 9216 [] WL_CONNECTED 5000 init_state)))
     = ''LOW''
   \<and> snd (inference_cycle (\<lambda>s. (0, [])) 9216 [] WL_CONNECTED 5000 init_state) = None"
proof -
  have st: "fst (inference_cycle (\<lambda>s. (0, [(''critical'', Fin (7 / 8)), (''blockage'', Fin 1), (''high_risk'', Fin 1)])) 9216 [] WL_DISCONNECTED 5000 init_state) =
            fst (inference_cycle (\<lambda>s. (0, [(''critical'', Fin (7 / 8)), (''blockage'', Fin 1), (''high_risk'', Fin 1)])) 9216 [] WL_CONNECTED 5000 init_state)"
    using alert_push_condition [where rc = "(\<lambda>s. (0, [(''critical'', Fin (7 / 8)), (''blockage'', Fin 1), (''high_risk'', Fin 1)]))" and n = 9216 and fb = "[]"
        and status = WL_DISCONNECTED and ms = 5000 and st = init_state
        and status' = WL_CONNECTED and ms' = 5000]
    by blast
  have h: "inference_results (fst (inference_cycle (\<lambda>s. (0, [(''critical'', Fin (7 / 8)), (''blockage'', Fin 1), (''high_risk'', Fin 1)])) 9216 [] WL_CONNECTED 5000 init_state)) =
        \<lparr> blockage_score = Fin 1, water_level_class = 2, flood_risk = Fin 1,
          alert_score = Fin 1, alert_level = ''HIGH'',
          alert_message = ''CRITICAL: Drainage blockage detected with high water level!'' \<rparr>"
    by (simp add: inference_cycle_state run_visual_inference_def run_sensor_inference_def
        run_environmental_inference_def EI_IMPULSE_OK_def fuse_and_alert_def fused_score_values
        alert_decision_def ALERT_THRESHOLD_HIGH_def flt_greater_def init_state_def Let_def)
  have l: "inference_results (fst (inference_cycle (\<lambda>s. (0, [])) 9216 [] WL_CONNECTED 5000 init_state)) =
        \<lparr> blockage_score = Fin 0, water_level_class = 0, flood_risk = Fin 0,
          alert_score = Fin 0, alert_level = ''LOW'',
          alert_message = ''OK: Drainage system operating normally.'' \<rparr>"
    by (simp add: inference_cycle_state run_visual_inference_def run_sensor_inference_def
        run_environmental_inference_def EI_IMPULSE_OK_def fuse_and_alert_def fused_score_values
        alert_decision_def ALERT_THRESHOLD_HIGH_def ALERT_THRESHOLD_MEDIUM_def flt_greater_def
        init_state_def Let_def)
  have e: "current_env_data (fst (inference_cycle (\<lambda>s. (0, [(''critical'', Fin (7 / 8)), (''blockage'', Fin 1), (''high_risk'', Fin 1)])) 9216 [] WL_CONNECTED 5000 init_state)) =
        \<lparr> temperature = Fin 0, humidity = Fin 0, pressure = Fin 0,
          rainfall = Fin 0, water_level = Fin 0 \<rparr>"
    by (simp add: inference_cycle_state init_state_def)
  have pl: "snd (inference_cycle (\<lambda>s. (0, [(''critical'', Fin (7 / 8)), (''blockage'', Fin 1), (''high_risk'', Fin 1)])) 9216 [] WL_CONNECTED 5000 init_state) =
       Some \<lparr> p_timestamp = 5000, p_alert_level = ''HIGH'',
              p_alert_message = ''CRITICAL: Drainage blockage detected with high water level!'',
              p_blockage_score = Fin 1, p_water_level_class = 2, p_flood_risk = Fin 1,
              p_temperature = Fin 0, p_humidity = Fin 0, p_water_level = Fin 0 \<rparr>"
    by (simp add: inference_cycle_push h e send_alert_def)
  show ?thesis
    using st h l pl
      alert_push_condition [where rc = "(\<lambda>s. (0, [(''critical'', Fin (7 / 8)), (''blockage'', Fin 1), (''high_risk'', Fin 1)]))" and n = 9216 and fb = "[]"
        and status = WL_CONNECTED and ms = 5000 and st = init_state]
      alert_push_condition [where rc = "(\<lambda>s. (0, [(''critical'', Fin (7 / 8)), (''blockage'', Fin 1), (''high_risk'', Fin 1)]))" and n = 9216 and fb = "[]"
        and status = WL_DISCONNECTED and ms = 5000 and st = init_state]
      alert_push_condition [where rc = "(\<lambda>s. (0, []))" and n = 9216 and fb = "[]"
        and status = WL_CONNECTED and ms = 5000 and st = init_state]
    by (simp add: handle_alerts_def)
qed

end
